theory Spec2Isabelle
  imports Complex_Main
begin

section \<open>Doubles\<close>

text \<open>
  The scalars of \<^verbatim>\<open>DiscSurface.hpp\<close> are C++ \<^verbatim>\<open>double\<close>s. A double is a finite number, one
  of the two zeros, one of the two infinities, or a NaN. \<open>Finite 0\<close> is \<^verbatim>\<open>+0.0\<close> and
  \<open>NegZero\<close> is \<^verbatim>\<open>-0.0\<close>; \<open>Finite x\<close> with \<open>x \<noteq> 0\<close> is the finite double of value \<open>x\<close>.
\<close>

datatype double = Finite real | NegZero | PosInf | NegInf | NaN

definition isZero :: "double \<Rightarrow> bool" where
  "isZero d = (d = Finite 0 \<or> d = NegZero)"

definition isInf :: "double \<Rightarrow> bool" where
  "isInf d = (d = PosInf \<or> d = NegInf)"

fun signBit :: "double \<Rightarrow> bool" where
  "signBit (Finite x) = (x < 0)"
| "signBit NegZero = True"
| "signBit PosInf = False"
| "signBit NegInf = True"
| "signBit NaN = False"

text \<open>The value of a finite double; not read for an infinity or a NaN.\<close>

fun realValue :: "double \<Rightarrow> real" where
  "realValue (Finite x) = x"
| "realValue NegZero = 0"
| "realValue PosInf = 0"
| "realValue NegInf = 0"
| "realValue NaN = 0"

definition signedZero :: "bool \<Rightarrow> double" where
  "signedZero negative = (if negative then NegZero else Finite 0)"

definition signedInf :: "bool \<Rightarrow> double" where
  "signedInf negative = (if negative then NegInf else PosInf)"

text \<open>
  The double that an operation returns for the exact result \<open>x\<close>. \<open>rnd\<close> rounds an exact
  result to a representable number (with the exponent unbounded above); it is the
  machine's, and a parameter of every operation below. A rounded result of magnitude
  \<open>2 ^ 1024\<close> or more is past the largest finite double and becomes an infinity; a result
  that rounds to zero is a zero with the sign of the exact result, and an exact zero gets
  the sign \<open>negativeZero\<close> that the operation prescribes.
\<close>

definition toDouble :: "(real \<Rightarrow> real) \<Rightarrow> bool \<Rightarrow> real \<Rightarrow> double" where
  "toDouble rnd negativeZero x =
     (let y = rnd x in
      if 2 ^ 1024 \<le> \<bar>y\<bar> then signedInf (y < 0)
      else if y = 0 then signedZero (if x = 0 then negativeZero else x < 0)
      else Finite y)"

text \<open>
  \<^verbatim>\<open>a * b\<close>: a NaN operand gives NaN, infinity times zero is NaN, infinity times anything
  else is an infinity; the sign is the exclusive or of the signs.
\<close>

definition dmul :: "(real \<Rightarrow> real) \<Rightarrow> double \<Rightarrow> double \<Rightarrow> double" where
  "dmul rnd a b =
     (if a = NaN \<or> b = NaN then NaN
      else if isInf a \<or> isInf b
        then (if isZero a \<or> isZero b then NaN else signedInf (signBit a \<noteq> signBit b))
      else toDouble rnd (signBit a \<noteq> signBit b) (realValue a * realValue b))"

text \<open>
  \<^verbatim>\<open>a + b\<close>: infinities of opposite sign give NaN; an exact zero sum is \<^verbatim>\<open>-0.0\<close> only when
  both operands are negative (both \<^verbatim>\<open>-0.0\<close>), and \<^verbatim>\<open>+0.0\<close> otherwise.
\<close>

definition dadd :: "(real \<Rightarrow> real) \<Rightarrow> double \<Rightarrow> double \<Rightarrow> double" where
  "dadd rnd a b =
     (if a = NaN \<or> b = NaN then NaN
      else if isInf a then (if isInf b \<and> signBit a \<noteq> signBit b then NaN else a)
      else if isInf b then b
      else toDouble rnd (signBit a \<and> signBit b) (realValue a + realValue b))"

fun dneg :: "double \<Rightarrow> double" where
  "dneg (Finite x) = (if x = 0 then NegZero else Finite (- x))"
| "dneg NegZero = Finite 0"
| "dneg PosInf = NegInf"
| "dneg NegInf = PosInf"
| "dneg NaN = NaN"

definition dsub :: "(real \<Rightarrow> real) \<Rightarrow> double \<Rightarrow> double \<Rightarrow> double" where
  "dsub rnd a b = dadd rnd a (dneg b)"

text \<open>
  \<^verbatim>\<open>a / b\<close>. A double division never traps: infinity by infinity and zero by zero are NaN,
  a nonzero number by zero is an infinity, a finite number by an infinity is a zero, and
  a quotient too large for a double is an infinity.
\<close>

definition ddiv :: "(real \<Rightarrow> real) \<Rightarrow> double \<Rightarrow> double \<Rightarrow> double" where
  "ddiv rnd a b =
     (if a = NaN \<or> b = NaN then NaN
      else if isInf a then (if isInf b then NaN else signedInf (signBit a \<noteq> signBit b))
      else if isInf b then signedZero (signBit a \<noteq> signBit b)
      else if isZero b
        then (if isZero a then NaN else signedInf (signBit a \<noteq> signBit b))
      else toDouble rnd (signBit a \<noteq> signBit b) (realValue a / realValue b))"

text \<open>\<^verbatim>\<open>u > 0.\<close>: false for both zeros and for a NaN.\<close>

fun gtZero :: "double \<Rightarrow> bool" where
  "gtZero (Finite x) = (0 < x)"
| "gtZero NegZero = False"
| "gtZero PosInf = True"
| "gtZero NegInf = False"
| "gtZero NaN = False"

section \<open>DiscSurface: straight-line intersection\<close>

text \<open>
  \<^verbatim>\<open>Vector3D\<close> is an Eigen column vector of three doubles. \<^verbatim>\<open>intersectionEstimate\<close> uses
  three Eigen expressions on such vectors: the dot product \<^verbatim>\<open>a.dot(b)\<close>, the difference
  \<^verbatim>\<open>center() - gpos\<close>, and \<^verbatim>\<open>gpos + u * dir\<close>, which Eigen evaluates as one expression.
  Eigen is not among the sources, and the header does not fix in which order the three
  products of a dot product are added nor whether a product and a sum are fused; the
  three expressions are therefore the fields of the record \<open>Eigen\<close>, a parameter of the
  model.
\<close>

type_synonym Vector3D = "double \<times> double \<times> double"

record Eigen =
  dotProduct :: "Vector3D \<Rightarrow> Vector3D \<Rightarrow> double"
  difference :: "Vector3D \<Rightarrow> Vector3D \<Rightarrow> Vector3D"
  addScaled :: "Vector3D \<Rightarrow> double \<Rightarrow> Vector3D \<Rightarrow> Vector3D"

text \<open>
  What \<^verbatim>\<open>intersectionEstimate\<close> reads from the surface is its centre, its normal (the
  third column of the rotation) and \<^verbatim>\<open>isOnSurface\<close>, which the header only declares: the
  three are the fields of the record. \<^verbatim>\<open>BoundaryCheck\<close> is declared elsewhere; the header
  builds it from a \<^verbatim>\<open>bool\<close> (the default arguments \<^verbatim>\<open>bchk = false\<close> and \<^verbatim>\<open>bchk = true\<close>),
  tests it as a \<^verbatim>\<open>bool\<close> (\<^verbatim>\<open>bchk ? ... : ...\<close>) and passes it on to \<^verbatim>\<open>isOnSurface\<close>: it is
  modelled as that flag.
\<close>

type_synonym BoundaryCheck = bool

record DiscSurface =
  center :: Vector3D
  normal :: Vector3D
  isOnSurface :: "Vector3D \<Rightarrow> BoundaryCheck \<Rightarrow> bool"

text \<open>\<^verbatim>\<open>Intersection(position, pathLength, valid)\<close>, as the two return statements build it.\<close>

record Intersection =
  position :: Vector3D
  pathLength :: double
  valid :: bool

text \<open>
  \<^verbatim>\<open>
  double denom = dir.dot(normal());
  if (denom) {
    double   u = (normal().dot((center() - gpos))) / (denom);
    Vector3D intersectPoint(gpos + u * dir);
    bool isValid = forceDir ? (u > 0.) : true;
    isValid = bchk ? (isValid && isOnSurface(intersectPoint, bchk)) : isValid;
    return Intersection(intersectPoint, u, isValid);
  }
  return Intersection(gpos, 0., false);
  \<close>
  The test \<^verbatim>\<open>if (denom)\<close> converts the double to \<^verbatim>\<open>bool\<close>: it holds unless \<^verbatim>\<open>denom\<close> compares
  equal to zero, so it holds for every nonzero denominator, however small, and for a NaN.
  Whether the division is evaluated is part of what the function does: beside the
  \<^verbatim>\<open>Intersection\<close>, the model returns the divisions the call evaluates, each as its
  dividend and its divisor.
\<close>

definition intersectionEstimateTraced ::
  "(real \<Rightarrow> real) \<Rightarrow> Eigen \<Rightarrow> DiscSurface \<Rightarrow> Vector3D \<Rightarrow> Vector3D \<Rightarrow> bool \<Rightarrow> BoundaryCheck
     \<Rightarrow> Intersection \<times> (double \<times> double) list" where
  "intersectionEstimateTraced rnd eigen s gpos dir forceDir bchk =
     (let denom = dotProduct eigen dir (normal s) in
      if \<not> isZero denom then
        (let num = dotProduct eigen (normal s) (difference eigen (center s) gpos);
             u = ddiv rnd num denom;
             intersectPoint = addScaled eigen gpos u dir;
             isValid = (if forceDir then gtZero u else True);
             isValid = (if bchk then isValid \<and> isOnSurface s intersectPoint bchk else isValid)
         in (\<lparr>position = intersectPoint, pathLength = u, valid = isValid\<rparr>, [(num, denom)]))
      else (\<lparr>position = gpos, pathLength = Finite 0, valid = False\<rparr>, []))"

text \<open>The value the function returns, and the divisions it evaluates on the way.\<close>

definition intersectionEstimate ::
  "(real \<Rightarrow> real) \<Rightarrow> Eigen \<Rightarrow> DiscSurface \<Rightarrow> Vector3D \<Rightarrow> Vector3D \<Rightarrow> bool \<Rightarrow> BoundaryCheck
     \<Rightarrow> Intersection" where
  "intersectionEstimate rnd eigen s gpos dir forceDir bchk =
     fst (intersectionEstimateTraced rnd eigen s gpos dir forceDir bchk)"

definition divisions ::
  "(real \<Rightarrow> real) \<Rightarrow> Eigen \<Rightarrow> DiscSurface \<Rightarrow> Vector3D \<Rightarrow> Vector3D \<Rightarrow> bool \<Rightarrow> BoundaryCheck
     \<Rightarrow> (double \<times> double) list" where
  "divisions rnd eigen s gpos dir forceDir bchk =
     snd (intersectionEstimateTraced rnd eigen s gpos dir forceDir bchk)"

text \<open>
  One way for the three Eigen expressions to be evaluated: component by component with
  the double operations above, each product and each sum rounded on its own, the first
  product of the dot product added to the sum of the other two. It serves to evaluate the
  function at concrete vectors; the theorem about the function does not depend on it.
\<close>

fun dot3 :: "(real \<Rightarrow> real) \<Rightarrow> Vector3D \<Rightarrow> Vector3D \<Rightarrow> double" where
  "dot3 rnd (ax, ay, az) (bx, by, bz) =
     dadd rnd (dmul rnd ax bx) (dadd rnd (dmul rnd ay by) (dmul rnd az bz))"

fun sub3 :: "(real \<Rightarrow> real) \<Rightarrow> Vector3D \<Rightarrow> Vector3D \<Rightarrow> Vector3D" where
  "sub3 rnd (ax, ay, az) (bx, by, bz) = (dsub rnd ax bx, dsub rnd ay by, dsub rnd az bz)"

fun addScaled3 :: "(real \<Rightarrow> real) \<Rightarrow> Vector3D \<Rightarrow> double \<Rightarrow> Vector3D \<Rightarrow> Vector3D" where
  "addScaled3 rnd (ax, ay, az) u (bx, by, bz) =
     (dadd rnd ax (dmul rnd u bx), dadd rnd ay (dmul rnd u by), dadd rnd az (dmul rnd u bz))"

definition componentwise :: "(real \<Rightarrow> real) \<Rightarrow> Eigen" where
  "componentwise rnd =
     \<lparr>dotProduct = dot3 rnd, difference = sub3 rnd, addScaled = addScaled3 rnd\<rparr>"

section \<open>value_corrector: correcting a parameter vector\<close>

text \<open>
  \<^verbatim>\<open>value_corrector_impl\<close> walks the pack of parameter identifiers and the vector in
  step. For each identifier it reads two static members of \<^verbatim>\<open>BoundParameterType<par>\<close>,
  a type declared outside these sources: \<^verbatim>\<open>may_modify_value\<close> and \<^verbatim>\<open>getValue\<close>. The
  parameter type is therefore a parameter of the model: a record of the two members,
  together with the valid range that the documented postcondition speaks of.
\<close>

record 'a BoundParameterType =
  may_modify_value :: bool
  getValue :: "'a \<Rightarrow> 'a"
  valid_range :: "'a set"

text \<open>
  The two specialisations: \<^verbatim>\<open><R, last>\<close> for a pack of one, and
  \<^verbatim>\<open><R, first, others...>\<close>, which corrects position \<^verbatim>\<open>pos\<close> and recurses at
  \<^verbatim>\<open>pos + 1\<close>. The pack is never empty: no specialisation matches an empty one.
\<close>

fun calculate ::
  "'a BoundParameterType \<Rightarrow> 'a BoundParameterType list \<Rightarrow> 'a list \<Rightarrow> nat \<Rightarrow> 'a list" where
  "calculate last0 [] values pos =
     (if may_modify_value last0 then values[pos := getValue last0 (values ! pos)] else values)"
| "calculate first (second # others) values pos =
     calculate second others
       (if may_modify_value first then values[pos := getValue first (values ! pos)] else values)
       (pos + 1)"

text \<open>
  \<^verbatim>\<open>value_corrector<params...>::result(values)\<close> starts the walk at position 0. It takes
  the vector by non-const reference and stores into it: it is the write through the
  correction mechanism. Its argument type \<^verbatim>\<open>ActsVector<BoundScalar, sizeof...(params)>\<close>
  fixes the length of the vector to the size of the pack; \<open>None\<close> stands for the
  instantiations the C++ type checker rejects (an empty pack, a vector of another
  length).
\<close>

definition result :: "'a BoundParameterType list \<Rightarrow> 'a list \<Rightarrow> 'a list option" where
  "result params values =
     (case params of
        [] \<Rightarrow> None
      | first # others \<Rightarrow>
          if length values = length params then Some (calculate first others values 0)
          else None)"


text \<open>
  What the corrector relies on in a parameter type, for the values it can be handed
  (\<open>admissible\<close>: for doubles the finite ones, a NaN cannot be wrapped into a range): a type
  that may modify values maps every admissible input into its valid range; a type that
  may not has no range to enforce, every admissible value is valid for it.
\<close>

definition well_formed_on :: "'a set \<Rightarrow> 'a BoundParameterType \<Rightarrow> bool" where
  "well_formed_on admissible par =
     (if may_modify_value par then (\<forall>v \<in> admissible. getValue par v \<in> valid_range par)
      else admissible \<subseteq> valid_range par)"

section \<open>The adaptive stepper in a region without material\<close>

text \<open>
  \<^verbatim>\<open>StepperTests.cpp\<close> drives \<^verbatim>\<open>EigenStepper\<close> through the propagator and checks, in
  \<^verbatim>\<open>step_extension_vacuum_test\<close>, that without field and material the collected positions
  stay on the start direction and the momenta stay the start momentum. The stepper
  itself (\<^verbatim>\<open>Acts/Propagator/EigenStepper.hpp\<close>) and its vacuum extension
  (\<^verbatim>\<open>DefaultExtension.hpp\<close>) are not among the sources; this section models them from
  sections 3, 4.2, 4.3 and 6 of the specification. Whatever the specification leaves
  open (the formula of the error estimate, the clamp of the step-size scaling, the rate
  at which time advances, the per-step Jacobian) is a field of the record \<open>EigenStepper\<close>,
  so that every statement below holds for each way of filling it in.
\<close>

text \<open>
  Modelled from the spec: the positions, directions and stage derivatives of the stepper
  (section 3: "position (3 scalars), unit direction (3 scalars)"), as triples of exact
  reals with the vector operations written out component-wise. The stepper is modelled in
  exact arithmetic throughout.
\<close>

type_synonym RealVector3D = "real \<times> real \<times> real"

fun dot :: "RealVector3D \<Rightarrow> RealVector3D \<Rightarrow> real" where
  "dot (ax, ay, az) (bx, by, bz) = ax * bx + ay * by + az * bz"

fun vadd :: "RealVector3D \<Rightarrow> RealVector3D \<Rightarrow> RealVector3D" where
  "vadd (ax, ay, az) (bx, by, bz) = (ax + bx, ay + by, az + bz)"

fun vsub :: "RealVector3D \<Rightarrow> RealVector3D \<Rightarrow> RealVector3D" where
  "vsub (ax, ay, az) (bx, by, bz) = (ax - bx, ay - by, az - bz)"

fun vscale :: "real \<Rightarrow> RealVector3D \<Rightarrow> RealVector3D" where
  "vscale c (ax, ay, az) = (c * ax, c * ay, c * az)"

definition vnorm :: "RealVector3D \<Rightarrow> real" where
  "vnorm a = sqrt (dot a a)"

text \<open>The vector product, for the Lorentz force.\<close>

fun cross :: "RealVector3D \<Rightarrow> RealVector3D \<Rightarrow> RealVector3D" where
  "cross (ax, ay, az) (bx, by, bz) = (ay * bz - az * by, az * bx - ax * bz, ax * by - ay * bx)"

text \<open>
  Modelled from the spec: the derivative vector and the transport Jacobian over the free
  parameters (section 3), read by index as Eigen's \<^verbatim>\<open>v(i)\<close> and \<^verbatim>\<open>m(i, j)\<close>; the test
  compares them with \<^verbatim>\<open>FreeVector::Zero()\<close> and \<^verbatim>\<open>FreeMatrix::Identity()\<close>.
\<close>

type_synonym FreeVector = "nat \<Rightarrow> real"

type_synonym FreeMatrix = "nat \<Rightarrow> nat \<Rightarrow> real"

text \<open>
  Modelled from the spec: the product of two 8 x 8 transport Jacobians, entry by entry.
  Section 3: the Jacobian is "accumulated multiplicatively by chaining per-step
  Jacobians"; the matrix type is not under the sources.
\<close>

definition mat_mul :: "FreeMatrix \<Rightarrow> FreeMatrix \<Rightarrow> FreeMatrix" where
  "mat_mul a b = (\<lambda>i j. \<Sum>l < 8. a i l * b l j)"

text \<open>
  The options the test's \<^verbatim>\<open>PropState\<close> carries (\<^verbatim>\<open>StepperTests.cpp\<close>, lines 60 to 65):
  \<^verbatim>\<open>mass = 42., tolerance = 1e-4, stepSizeCutOff = 0., maxRungeKuttaStepTrials = 10000\<close>.
\<close>

record Options =
  mass :: real
  tolerance :: real
  stepSizeCutOff :: real
  maxRungeKuttaStepTrials :: nat

text \<open>
  Modelled from the spec: the stepping state of \<^verbatim>\<open>EigenStepper\<close> (section 3, "Stepping
  state"), with the field names the test reads (\<^verbatim>\<open>pos, dir, p, q, t, pathAccumulated,
  stepSize, covTransport, jacTransport, derivative\<close>). \<open>stepSize\<close> is the active value of
  the constrained step size, signed by the navigation direction; the table of constraints
  behind it is not modelled, and a caller that tightens or releases a constraint between
  two steps appears as a new active value (see \<open>propagateSteps\<close>).
\<close>

record State =
  pos :: RealVector3D
  dir :: RealVector3D
  p :: real
  q :: real
  t :: real
  pathAccumulated :: real
  stepSize :: real
  covTransport :: bool
  jacTransport :: FreeMatrix
  derivative :: FreeVector

text \<open>
  Modelled from the spec: the two integration failures of section 4.2 and section 7, under
  the names the test compares against (\<^verbatim>\<open>EigenStepperError::StepSizeStalled\<close>,
  \<^verbatim>\<open>EigenStepperError::StepSizeAdjustmentFailed\<close>).
\<close>

datatype EigenStepperError = StepSizeStalled | StepSizeAdjustmentFailed

text \<open>
  Modelled from the spec: the four stage derivatives \<open>k1, k2, k3, k4\<close> of one trial
  (section 4.2), which the stepper keeps between the trial and the acceptance.
\<close>

type_synonym Stages = "RealVector3D \<times> RealVector3D \<times> RealVector3D \<times> RealVector3D"

text \<open>
  Modelled from the spec: what a stepper is configured with. \<open>getField\<close> is the field
  sampling of section 6, a pure function of the position. The other fields are the parts
  of \<^verbatim>\<open>EigenStepper::step\<close> that section 4.2 names without giving them: the estimate of the
  local truncation error "from the stage derivatives", the bounds of the "maximum
  shrink/grow ratio", the advance of time per unit of path (a function of mass and
  momentum), and the per-step transport Jacobian and derivative vector that are computed
  "via the same stage evaluations".
\<close>

record EigenStepper =
  getField :: "RealVector3D \<Rightarrow> RealVector3D"
  errorEstimate :: "real \<Rightarrow> Stages \<Rightarrow> real"
  minScaling :: real
  maxScaling :: real
  dtds :: "real \<Rightarrow> real \<Rightarrow> real"
  transportMatrix :: "State \<Rightarrow> real \<Rightarrow> Stages \<Rightarrow> FreeMatrix"
  stageDerivative :: "State \<Rightarrow> real \<Rightarrow> Stages \<Rightarrow> FreeVector"

text \<open>
  Modelled from the spec: the stage function of the vacuum extension, section 4.2:
  "position and direction evolve under the Lorentz force from the sampled field". The
  change of the direction \<open>d\<close> per unit of path in the field \<open>B\<close> is \<open>(q / p) (d \<times> B)\<close>.
\<close>

definition lorentz :: "State \<Rightarrow> RealVector3D \<Rightarrow> RealVector3D \<Rightarrow> RealVector3D" where
  "lorentz st d bField = vscale (q st / p st) (cross d bField)"

text \<open>
  Modelled from the spec: the "four evaluation stages (k1..k4) at the current point and
  three trial midpoints determined by the current step size" of section 4.2, in the
  classical fourth-order scheme for a second-order equation of motion: \<open>k1\<close> at the
  current point, \<open>k2\<close> and \<open>k3\<close> in the field at the half-step point, \<open>k4\<close> in the field at
  the full-step point.
\<close>

definition stages :: "EigenStepper \<Rightarrow> State \<Rightarrow> real \<Rightarrow> Stages" where
  "stages stp st h =
     (let k1 = lorentz st (dir st) (getField stp (pos st));
          pos1 = vadd (pos st) (vadd (vscale (h / 2) (dir st)) (vscale (h * h / 8) k1));
          bMiddle = getField stp pos1;
          k2 = lorentz st (vadd (dir st) (vscale (h / 2) k1)) bMiddle;
          k3 = lorentz st (vadd (dir st) (vscale (h / 2) k2)) bMiddle;
          pos2 = vadd (pos st) (vadd (vscale h (dir st)) (vscale (h * h / 2) k3));
          k4 = lorentz st (vadd (dir st) (vscale h k3)) (getField stp pos2)
      in (k1, k2, k3, k4))"

text \<open>
  Modelled from the spec: one trial of section 4.2, "After each trial the stepper estimates
  the local truncation error from the stage derivatives"; the trial is good when the
  estimate does not exceed the configured tolerance.
\<close>

definition tryRungeKuttaStep :: "EigenStepper \<Rightarrow> Options \<Rightarrow> State \<Rightarrow> bool" where
  "tryRungeKuttaStep stp opts st =
     (errorEstimate stp (stepSize st) (stages stp st (stepSize st)) \<le> tolerance opts)"

text \<open>
  Modelled from the spec: the step-size control of section 4.2,
  \<^verbatim>\<open>h_new = h * (tolerance/error)^(1/4)\<close>, "clamped to a maximum shrink/grow ratio".
\<close>

definition stepSizeScaling :: "EigenStepper \<Rightarrow> Options \<Rightarrow> State \<Rightarrow> real" where
  "stepSizeScaling stp opts st =
     min (max (minScaling stp)
            (root 4 (tolerance opts
                     / errorEstimate stp (stepSize st) (stages stp st (stepSize st)))))
         (maxScaling stp)"

text \<open>
  Modelled from the spec: a failed trial of section 4.2, "the step size is shrunk by a
  factor derived from the error ratio ... and the step is retried". Only the step size of
  the state changes.
\<close>

definition shrink :: "EigenStepper \<Rightarrow> Options \<Rightarrow> State \<Rightarrow> State" where
  "shrink stp opts st = st\<lparr>stepSize := stepSize st * stepSizeScaling stp opts st\<rparr>"

text \<open>
  Modelled from the spec: the retry loop of section 4.2. A failed trial rescales the step
  size; "If the required step size underflows a configured minimum floor before
  converging, propagation reports StepSizeStalled", and the step "is retried, up to a
  bounded number of trials. Exceeding the trial bound is a fatal
  StepSizeAdjustmentFailed error". The loop returns the error, if any, and the state with
  the step size it ended on. It ends after at most \<open>maxRungeKuttaStepTrials + 2\<close> trials:
  that is its termination proof.
\<close>

function adjust ::
  "EigenStepper \<Rightarrow> Options \<Rightarrow> State \<Rightarrow> nat \<Rightarrow> EigenStepperError option \<times> State" where
  "adjust stp opts st nStepTrials =
     (if tryRungeKuttaStep stp opts st then (None, st)
      else if (stepSize (shrink stp opts st))\<^sup>2 < (stepSizeCutOff opts)\<^sup>2
        then (Some StepSizeStalled, shrink stp opts st)
      else if nStepTrials > maxRungeKuttaStepTrials opts
        then (Some StepSizeAdjustmentFailed, shrink stp opts st)
      else adjust stp opts (shrink stp opts st) (nStepTrials + 1))"
  by pat_completeness auto
termination
  by (relation "measure (\<lambda>(stp, opts, st, n). maxRungeKuttaStepTrials opts + 1 - n)") auto

text \<open>
  Modelled from the spec: the state after an accepted trial of size \<open>h\<close>, section 4.2: "On
  acceptance: position, direction, momentum and time are advanced; if covariance
  transport is active, the transport Jacobian and the derivative vector are updated via
  the same stage evaluations". Position and direction take the fourth-order weighted sums
  of the stages and the direction is normalised again (section 3: "direction is
  unit-norm"); the momentum "changes only if the active extension modifies it", which the
  vacuum extension does not; the Jacobian is chained by multiplication (section 3).
  The quotients \<open>q / p\<close> of \<open>lorentz\<close> and \<open>1 / vnorm d\<close> below are HOL's total division:
  the statements about \<open>advance\<close> assume a positive momentum and a unit direction, where
  both divisors are nonzero.
\<close>

definition advance :: "EigenStepper \<Rightarrow> Options \<Rightarrow> State \<Rightarrow> State" where
  "advance stp opts st =
     (let h = stepSize st;
          ks = stages stp st h;
          (k1, k2, k3, k4) = ks;
          d = vadd (dir st)
                (vscale (h / 6) (vadd k1 (vadd (vscale 2 (vadd k2 k3)) k4)))
      in st\<lparr>pos := vadd (pos st)
                     (vadd (vscale h (dir st)) (vscale (h * h / 6) (vadd k1 (vadd k2 k3)))),
            dir := vscale (1 / vnorm d) d,
            t := t st + h * dtds stp (mass opts) (p st),
            pathAccumulated := pathAccumulated st + h,
            jacTransport :=
              (if covTransport st then mat_mul (transportMatrix stp st h ks) (jacTransport st)
               else jacTransport st),
            derivative :=
              (if covTransport st then stageDerivative stp st h ks else derivative st)\<rparr>)"

text \<open>
  Modelled from the spec: the public contract of section 4.2,
  \<^verbatim>\<open>step(state) -> accepted path length | IntegrationError\<close>. The state is returned as
  well: on an error it is the state with the step size the retry loop ended on.
\<close>

definition step ::
  "EigenStepper \<Rightarrow> Options \<Rightarrow> State \<Rightarrow> (EigenStepperError + real) \<times> State" where
  "step stp opts st =
     (case adjust stp opts st 0 of
        (Some e, st') \<Rightarrow> (Inl e, st')
      | (None, st') \<Rightarrow> (Inr (stepSize st'), advance stp opts st'))"

text \<open>
  Modelled from the spec: the part of the propagation loop of section 4.5 that the
  trajectory depends on. Before each step the navigator and the abort conditions may
  replace the active step size (section 4.2: "several independent callers ... may each
  propose a tightest bound"): \<open>Some h\<close> is such a new value, \<open>None\<close> leaves it. The actions
  only collect results. The first integration error ends the run.
\<close>

fun propagateSteps ::
  "EigenStepper \<Rightarrow> Options \<Rightarrow> State \<Rightarrow> real option list \<Rightarrow> EigenStepperError + State" where
  "propagateSteps stp opts st [] = Inr st"
| "propagateSteps stp opts st (c # cs) =
     (case step stp opts (case c of None \<Rightarrow> st | Some h \<Rightarrow> st\<lparr>stepSize := h\<rparr>) of
        (Inl e, st') \<Rightarrow> Inl e
      | (Inr h, st') \<Rightarrow> propagateSteps stp opts st' cs)"

section \<open>Properties of the surface intersection\<close>

text \<open>
  Claim C7, as amended. Whatever the rounding and whatever Eigen computes for its three
  expressions: \<open>intersectionEstimate\<close> never divides by a zero. When the computed dot
  product of direction and normal is zero (\<^verbatim>\<open>+0.0\<close> or \<^verbatim>\<open>-0.0\<close>) it returns the explicit
  no-intersection result (the given position, path length \<^verbatim>\<open>0.\<close>, validity flag false) and
  evaluates no division. For every other computed dot product, however close to zero, it
  evaluates exactly one division, by that dot product, and returns the quotient as the
  path length, finite or not; the result is valid unless the forced direction or the
  boundary check rejects it.
\<close>

theorem intersectionEstimate_guard:
  "(\<forall>(dividend, divisor) \<in> set (divisions rnd eigen s gpos gdir forceDir bchk).
       \<not> isZero divisor)
   \<and> (isZero (dotProduct eigen gdir (normal s)) \<longrightarrow>
        intersectionEstimate rnd eigen s gpos gdir forceDir bchk =
          \<lparr>position = gpos, pathLength = Finite 0, valid = False\<rparr>
      \<and> divisions rnd eigen s gpos gdir forceDir bchk = [])
   \<and> (\<not> isZero (dotProduct eigen gdir (normal s)) \<longrightarrow>
        (let denom = dotProduct eigen gdir (normal s);
             num = dotProduct eigen (normal s) (difference eigen (center s) gpos);
             u = ddiv rnd num denom;
             point = addScaled eigen gpos u gdir
         in intersectionEstimate rnd eigen s gpos gdir forceDir bchk =
              \<lparr>position = point, pathLength = u,
               valid = ((forceDir \<longrightarrow> gtZero u) \<and> (bchk \<longrightarrow> isOnSurface s point bchk))\<rparr>
          \<and> divisions rnd eigen s gpos gdir forceDir bchk = [(num, denom)]))"
  by (auto simp: intersectionEstimate_def divisions_def intersectionEstimateTraced_def Let_def)

text \<open>
  At the vectors of the statements below every double operation is exact: each operand
  and each result is zero, an infinity, a NaN or a power of two. The rounding is then the
  identity.
\<close>

lemma toDouble_exact:
  "toDouble (\<lambda>x. x) negativeZero x =
     (if 2 ^ 1024 \<le> \<bar>x\<bar> then signedInf (x < 0)
      else if x = 0 then signedZero negativeZero else Finite x)"
  by (simp add: toDouble_def Let_def)

lemmas double_simps =
  componentwise_def dadd_def dmul_def ddiv_def dsub_def toDouble_exact isZero_def isInf_def
  signedZero_def signedInf_def

text \<open>
  The theorem at a disc at \<open>z = 8\<close> with normal along \<open>z\<close>, with forced direction and
  boundary check: a direction in the plane of the disc (dot product \<^verbatim>\<open>+0.0\<close>, no
  division), and a direction along the normal (dot product 2, the one division \<open>8 / 2\<close>,
  path length 4).
\<close>

theorem intersectionEstimate_guard_witness:
  "isZero (dotProduct (componentwise (\<lambda>x. x))
      (Finite 1, Finite 0, Finite 0) (Finite 0, Finite 0, Finite 1))
   \<and> intersectionEstimate (\<lambda>x. x) (componentwise (\<lambda>x. x))
        \<lparr>center = (Finite 0, Finite 0, Finite 8), normal = (Finite 0, Finite 0, Finite 1),
         isOnSurface = (\<lambda>x b. True)\<rparr>
        (Finite 0, Finite 0, Finite 0) (Finite 1, Finite 0, Finite 0) True True
      = \<lparr>position = (Finite 0, Finite 0, Finite 0), pathLength = Finite 0, valid = False\<rparr>
   \<and> divisions (\<lambda>x. x) (componentwise (\<lambda>x. x))
        \<lparr>center = (Finite 0, Finite 0, Finite 8), normal = (Finite 0, Finite 0, Finite 1),
         isOnSurface = (\<lambda>x b. True)\<rparr>
        (Finite 0, Finite 0, Finite 0) (Finite 1, Finite 0, Finite 0) True True = []
   \<and> \<not> isZero (dotProduct (componentwise (\<lambda>x. x))
      (Finite 0, Finite 0, Finite 2) (Finite 0, Finite 0, Finite 1))
   \<and> intersectionEstimate (\<lambda>x. x) (componentwise (\<lambda>x. x))
        \<lparr>center = (Finite 0, Finite 0, Finite 8), normal = (Finite 0, Finite 0, Finite 1),
         isOnSurface = (\<lambda>x b. True)\<rparr>
        (Finite 0, Finite 0, Finite 0) (Finite 0, Finite 0, Finite 2) True True
      = \<lparr>position = (Finite 0, Finite 0, Finite 8), pathLength = Finite 4, valid = True\<rparr>
   \<and> divisions (\<lambda>x. x) (componentwise (\<lambda>x. x))
        \<lparr>center = (Finite 0, Finite 0, Finite 8), normal = (Finite 0, Finite 0, Finite 1),
         isOnSurface = (\<lambda>x b. True)\<rparr>
        (Finite 0, Finite 0, Finite 0) (Finite 0, Finite 0, Finite 2) True True
      = [(Finite 8, Finite 2)]"
proof -
  let ?E = "componentwise (\<lambda>x. x)"
  let ?s = "\<lparr>center = (Finite 0, Finite 0, Finite 8), normal = (Finite 0, Finite 0, Finite 1),
            isOnSurface = (\<lambda>x b. True)\<rparr>"
  let ?o = "(Finite 0, Finite 0, Finite 0)"
  have d1: "dotProduct ?E (Finite 1, Finite 0, Finite 0) (normal ?s) = Finite 0"
    by (simp add: double_simps)
  have d2: "dotProduct ?E (Finite 0, Finite 0, Finite 2) (normal ?s) = Finite 2"
    by (simp add: double_simps)
  have n: "dotProduct ?E (normal ?s) (difference ?E (center ?s) ?o) = Finite 8"
    by (simp add: double_simps)
  have u: "ddiv (\<lambda>x. x) (Finite 8) (Finite 2) = Finite 4"
    by (simp add: double_simps)
  have pt: "addScaled ?E ?o (Finite 4) (Finite 0, Finite 0, Finite 2)
      = (Finite 0, Finite 0, Finite 8)"
    by (simp add: double_simps)
  have z: "isZero (dotProduct ?E (Finite 1, Finite 0, Finite 0) (normal ?s))"
    unfolding d1 by (simp add: isZero_def)
  have nz: "\<not> isZero (dotProduct ?E (Finite 0, Finite 0, Finite 2) (normal ?s))"
    unfolding d2 by (simp add: isZero_def)
  note g1 = intersectionEstimate_guard
      [of "\<lambda>x. x" ?E ?s ?o "(Finite 1, Finite 0, Finite 0)" True True,
       THEN conjunct2, THEN conjunct1, THEN mp, OF z]
  note g2 = intersectionEstimate_guard
      [of "\<lambda>x. x" ?E ?s ?o "(Finite 0, Finite 0, Finite 2)" True True,
       THEN conjunct2, THEN conjunct2, THEN mp, OF nz]
  have g2': "intersectionEstimate (\<lambda>x. x) ?E ?s ?o (Finite 0, Finite 0, Finite 2) True True
      = \<lparr>position = (Finite 0, Finite 0, Finite 8), pathLength = Finite 4, valid = True\<rparr>
    \<and> divisions (\<lambda>x. x) ?E ?s ?o (Finite 0, Finite 0, Finite 2) True True
      = [(Finite 8, Finite 2)]"
    using g2 unfolding Let_def d2 n u pt by simp
  from z nz g1 g2' show ?thesis
    unfolding DiscSurface.simps by blast
qed

text \<open>
  Claim C7 as stated fails twice, at the same disc and a ray from the origin with the
  default arguments (no forced direction, no boundary check). With the direction
  \<open>(1, 0, 2 ^ -40)\<close> the dot product with the normal is \<open>2 ^ -40\<close>, near zero but not zero:
  the division is carried out and the intersection is reported valid, at path length
  \<open>2 ^ 43\<close>. With the direction \<open>(1, 0, 2 ^ -1074)\<close> the dot product is the smallest
  positive double: the quotient \<open>8 / 2 ^ -1074\<close> overflows, and the function returns, as
  valid, an infinite path length and a position with two infinite coordinates and a NaN.
\<close>

theorem intersectionEstimate_near_zero_counterexample:
  "dotProduct (componentwise (\<lambda>x. x)) (Finite 1, Finite 0, Finite (1 / 2 ^ 40))
      (Finite 0, Finite 0, Finite 1) = Finite (1 / 2 ^ 40)
   \<and> intersectionEstimate (\<lambda>x. x) (componentwise (\<lambda>x. x))
        \<lparr>center = (Finite 0, Finite 0, Finite 8), normal = (Finite 0, Finite 0, Finite 1),
         isOnSurface = (\<lambda>x b. True)\<rparr>
        (Finite 0, Finite 0, Finite 0) (Finite 1, Finite 0, Finite (1 / 2 ^ 40)) False False
      = \<lparr>position = (Finite (2 ^ 43), Finite 0, Finite 8), pathLength = Finite (2 ^ 43),
         valid = True\<rparr>
   \<and> dotProduct (componentwise (\<lambda>x. x)) (Finite 1, Finite 0, Finite (1 / 2 ^ 1074))
      (Finite 0, Finite 0, Finite 1) = Finite (1 / 2 ^ 1074)
   \<and> intersectionEstimate (\<lambda>x. x) (componentwise (\<lambda>x. x))
        \<lparr>center = (Finite 0, Finite 0, Finite 8), normal = (Finite 0, Finite 0, Finite 1),
         isOnSurface = (\<lambda>x b. True)\<rparr>
        (Finite 0, Finite 0, Finite 0) (Finite 1, Finite 0, Finite (1 / 2 ^ 1074)) False False
      = \<lparr>position = (PosInf, NaN, PosInf), pathLength = PosInf, valid = True\<rparr>"
  by (simp add: intersectionEstimate_def intersectionEstimateTraced_def double_simps Let_def)

section \<open>Properties of the value corrector\<close>

lemma calculate_length: "length (calculate par pars vs start) = length vs"
  by (induction pars arbitrary: par vs start) auto

text \<open>
  The walk position by position: inside the window \<open>start ..< start + length (par # pars)\<close>
  a coordinate is replaced by \<open>getValue\<close> of its parameter type when that type may modify
  values; every other coordinate is left as it was.
\<close>

lemma calculate_nth:
  "start + length (par # pars) \<le> length vs \<Longrightarrow>
   calculate par pars vs start ! i =
     (if start \<le> i \<and> i < start + length (par # pars)
      then (if may_modify_value ((par # pars) ! (i - start))
            then getValue ((par # pars) ! (i - start)) (vs ! i) else vs ! i)
      else vs ! i)"
proof (induction pars arbitrary: par vs start)
  case Nil
  then show ?case by (auto simp: nth_list_update)
next
  case (Cons second others)
  let ?vs' = "if may_modify_value par then vs[start := getValue par (vs ! start)] else vs"
  have len: "start + 1 + length (second # others) \<le> length ?vs'"
    using Cons.prems by simp
  have unfold: "calculate par (second # others) vs start = calculate second others ?vs' (start + 1)"
    by simp
  show ?case
  proof (cases "i \<le> start")
    case True
    then show ?thesis
      unfolding unfold using Cons.IH [OF len] Cons.prems
      by (auto simp: nth_list_update)
  next
    case False
    then have "(par # second # others) ! (i - start) = (second # others) ! (i - (start + 1))"
      by (simp add: nth_Cons')
    moreover have "?vs' ! i = vs ! i"
      using False by simp
    ultimately show ?thesis
      unfolding unfold using Cons.IH [OF len] False by auto
  qed
qed



text \<open>
  A vector that went through the corrector is a fixed point of it, provided \<open>getValue\<close>
  leaves the values of the valid range alone (as wrapping and clamping do): once written,
  the stored values need no correction when they are read.
\<close>

lemma result_fixed_point:
  assumes "result params vs = Some ws"
    and "set vs \<subseteq> admissible"
    and "\<forall>par \<in> set params. well_formed_on admissible par"
    and "\<forall>par \<in> set params. \<forall>v \<in> valid_range par. getValue par v = v"
  shows "result params ws = Some ws"
proof -
  from assms(1) obtain first others where ps: "params = first # others"
    and len: "length vs = length params"
    and ws: "ws = calculate first others vs 0"
    by (auto simp: result_def split: list.splits if_splits)
  have lws: "length ws = length params"
    by (simp add: ws calculate_length len)
  have "calculate first others ws 0 = ws"
  proof (rule nth_equalityI)
    show "length (calculate first others ws 0) = length ws"
      by (simp add: calculate_length)
  next
    fix i assume "i < length (calculate first others ws 0)"
    then have i: "i < length params"
      by (simp add: calculate_length lws)
    then have mem: "params ! i \<in> set params"
      by simp
    have adm: "vs ! i \<in> admissible"
      using assms(2) i len by (auto simp: subset_iff)
    have again: "calculate first others ws 0 ! i =
        (if may_modify_value (params ! i) then getValue (params ! i) (ws ! i) else ws ! i)"
      using calculate_nth [of 0 first others ws i] lws i by (simp add: ps)
    have once: "ws ! i =
        (if may_modify_value (params ! i) then getValue (params ! i) (vs ! i) else vs ! i)"
      using calculate_nth [of 0 first others vs i] len i by (simp add: ps ws)
    show "calculate first others ws 0 ! i = ws ! i"
    proof (cases "may_modify_value (params ! i)")
      case True
      with assms(3) mem adm have "ws ! i \<in> valid_range (params ! i)"
        by (auto simp: once well_formed_on_def)
      with assms(4) mem have "getValue (params ! i) (ws ! i) = ws ! i"
        by blast
      with True again show ?thesis
        by simp
    next
      case False
      with again show ?thesis
        by simp
    qed
  qed
  then show ?thesis
    using lws by (simp add: result_def ps)
qed

section \<open>Properties of the stepper without field and material\<close>

lemma vadd_zero [simp]: "vadd a (0, 0, 0) = a"
  by (cases a) simp

lemma cross_zero [simp]: "cross a (0, 0, 0) = (0, 0, 0)"
  by (cases a) simp

lemma vscale_one [simp]: "vscale 1 a = a"
  by (cases a) simp

lemma vnorm_zero [simp]: "vnorm (0, 0, 0) = 0"
  by (simp add: vnorm_def)

lemma vadd_vscale_add:
  "vadd (vadd a (vscale x d)) (vscale y d) = vadd a (vscale (x + y) d)"
  by (cases a; cases d) (simp add: algebra_simps)

text \<open>Without a field the Lorentz force vanishes, and with it all four stages.\<close>

lemma lorentz_zero_field: "lorentz st d (0, 0, 0) = (0, 0, 0)"
  by (simp add: lorentz_def)

lemma stages_zero_field:
  "getField stp = (\<lambda>x. (0, 0, 0)) \<Longrightarrow>
     stages stp st h = ((0, 0, 0), (0, 0, 0), (0, 0, 0), (0, 0, 0))"
  by (simp add: stages_def lorentz_zero_field Let_def)

text \<open>The retry loop changes the step size and nothing else of the trajectory.\<close>

lemma shrink_frame:
  "pos (shrink stp opts st) = pos st"
  "dir (shrink stp opts st) = dir st"
  "p (shrink stp opts st) = p st"
  "pathAccumulated (shrink stp opts st) = pathAccumulated st"
  by (simp_all add: shrink_def)

lemma adjust_frame:
  "pos (snd (adjust stp opts st n)) = pos st
   \<and> dir (snd (adjust stp opts st n)) = dir st
   \<and> p (snd (adjust stp opts st n)) = p st
   \<and> pathAccumulated (snd (adjust stp opts st n)) = pathAccumulated st"
proof (induction stp opts st n rule: adjust.induct)
  case (1 stp opts st n)
  show ?case
    using "1.IH" by (subst (1 2 3 4) adjust.simps) (simp add: shrink_frame)
qed

lemma adjust_accept:
  "tryRungeKuttaStep stp opts st \<Longrightarrow> adjust stp opts st n = (None, st)"
  by (subst adjust.simps) simp

lemma step_accept:
  "tryRungeKuttaStep stp opts st \<Longrightarrow>
     step stp opts st = (Inr (stepSize st), advance stp opts st)"
  by (simp add: step_def adjust_accept)

lemma advance_zero_field:
  assumes "getField stp = (\<lambda>x. (0, 0, 0))" and "vnorm (dir st) = 1"
  shows "pos (advance stp opts st) = vadd (pos st) (vscale (stepSize st) (dir st))"
    and "dir (advance stp opts st) = dir st"
    and "p (advance stp opts st) = p st"
    and "pathAccumulated (advance stp opts st) = pathAccumulated st + stepSize st"
  using assms by (simp_all add: advance_def stages_zero_field Let_def)

text \<open>One accepted step without field: the step length along the unchanged direction.\<close>

lemma step_zero_field:
  assumes "getField stp = (\<lambda>x. (0, 0, 0))" and "vnorm (dir st) = 1"
    and "step stp opts st = (Inr h, st')"
  shows "pos st' = vadd (pos st) (vscale h (dir st))
       \<and> dir st' = dir st \<and> p st' = p st
       \<and> pathAccumulated st' = pathAccumulated st + h"
proof -
  obtain e s1 where a: "adjust stp opts st 0 = (e, s1)"
    by (cases "adjust stp opts st 0")
  with assms(3) have h: "h = stepSize s1" and st': "st' = advance stp opts s1"
    by (auto simp: step_def split: option.splits)
  have fr: "pos s1 = pos st" "dir s1 = dir st" "p s1 = p st"
    "pathAccumulated s1 = pathAccumulated st"
    using adjust_frame [of stp opts st 0] a by simp_all
  show ?thesis
    using advance_zero_field [OF assms(1), of s1 opts] assms(2) fr
    by (simp add: st' h)
qed

text \<open>
  Claim C2. Take a valid initial state (unit direction, positive momentum) and a stepper
  whose field is zero everywhere; without material the vacuum extension is the one that
  acts. Whatever step sizes the callers impose between the steps, if the run of steps
  succeeds, the position it reaches is the initial position plus the accumulated path
  length times the initial direction, exactly, and the momentum vector (magnitude times
  direction) is the initial one.
\<close>

theorem zero_field_straight_line:
  assumes "getField stp = (\<lambda>x. (0, 0, 0))"
    and "vnorm (dir st) = 1"
    and "0 < p st"
    and "propagateSteps stp opts st cs = Inr st'"
  shows "pos st' = vadd (pos st) (vscale (pathAccumulated st' - pathAccumulated st) (dir st))
       \<and> vscale (p st') (dir st') = vscale (p st) (dir st)"
  using assms(2-)
proof (induction cs arbitrary: st)
  case Nil
  then show ?case
    by (cases "pos st'"; cases "dir st'") simp
next
  case (Cons c cs)
  let ?s0 = "case c of None \<Rightarrow> st | Some h \<Rightarrow> st\<lparr>stepSize := h\<rparr>"
  have s0: "pos ?s0 = pos st" "dir ?s0 = dir st" "p ?s0 = p st"
    "pathAccumulated ?s0 = pathAccumulated st"
    by (simp_all split: option.splits)
  from Cons.prems(3) obtain h s1 where s: "step stp opts ?s0 = (Inr h, s1)"
    and rest: "propagateSteps stp opts s1 cs = Inr st'"
    by (auto split: prod.splits sum.splits)
  have one: "pos s1 = vadd (pos st) (vscale h (dir st))" "dir s1 = dir st" "p s1 = p st"
    "pathAccumulated s1 = pathAccumulated st + h"
    using step_zero_field [OF assms(1) _ s] Cons.prems(1) s0 by simp_all
  have "pos st' = vadd (pos s1) (vscale (pathAccumulated st' - pathAccumulated s1) (dir s1))
      \<and> vscale (p st') (dir st') = vscale (p s1) (dir s1)"
    using Cons.IH [OF _ _ rest] one Cons.prems by simp
  then show ?case
    by (simp add: one vadd_vscale_add)
qed

text \<open>
  The theorem at the start of \<^verbatim>\<open>step_extension_vacuum_test\<close>: origin, direction along
  \<open>x\<close>, momentum 1, the options of \<^verbatim>\<open>PropState\<close>; two steps of 300 and 700 end at
  \<open>x = 1000\<close> with the momentum vector unchanged.
\<close>

theorem zero_field_straight_line_witness:
  "\<exists>st'. propagateSteps
      \<lparr>getField = (\<lambda>x. (0, 0, 0)),
       errorEstimate = (\<lambda>h ks. case ks of (k1, k2, k3, k4) \<Rightarrow>
                          h * h * vnorm (vsub (vadd k1 k4) (vadd k2 k3))),
       minScaling = 1 / 4, maxScaling = 4,
       dtds = (\<lambda>m mom. sqrt (1 + (m / mom)\<^sup>2)),
       transportMatrix = (\<lambda>st h ks i j. if i = j then 1 else 0),
       stageDerivative = (\<lambda>st h ks i. 0)\<rparr>
      \<lparr>mass = 42, tolerance = 1 / 10000, stepSizeCutOff = 0,
       maxRungeKuttaStepTrials = 10000\<rparr>
      \<lparr>pos = (0, 0, 0), dir = (1, 0, 0), p = 1, q = 1, t = 0, pathAccumulated = 0,
       stepSize = 1500, covTransport = True,
       jacTransport = (\<lambda>i j. if i = j then 1 else 0), derivative = (\<lambda>i. 0)\<rparr>
      [Some 300, Some 700] = Inr st'
    \<and> pathAccumulated st' = 1000 \<and> pos st' = (1000, 0, 0)
    \<and> vscale (p st') (dir st') = (1, 0, 0)"
proof -
  let ?stp = "\<lparr>getField = (\<lambda>x. (0, 0, 0)),
       errorEstimate = (\<lambda>h ks. case ks of (k1, k2, k3, k4) \<Rightarrow>
                          h * h * vnorm (vsub (vadd k1 k4) (vadd k2 k3))),
       minScaling = 1 / 4, maxScaling = 4,
       dtds = (\<lambda>m mom. sqrt (1 + (m / mom)\<^sup>2)),
       transportMatrix = (\<lambda>st h ks i j. if i = j then 1 else 0),
       stageDerivative = (\<lambda>st h ks i. 0)\<rparr>"
  let ?opts = "\<lparr>mass = 42, tolerance = 1 / 10000, stepSizeCutOff = 0,
       maxRungeKuttaStepTrials = 10000\<rparr>"
  let ?s0 = "\<lparr>pos = (0, 0, 0), dir = (1, 0, 0), p = 1, q = 1, t = 0, pathAccumulated = 0,
       stepSize = 1500, covTransport = True,
       jacTransport = (\<lambda>i j. if i = j then 1 else 0), derivative = (\<lambda>i. 0)\<rparr>"
  let ?s1 = "advance ?stp ?opts (?s0\<lparr>stepSize := 300\<rparr>)"
  let ?s2 = "advance ?stp ?opts (?s1\<lparr>stepSize := 700\<rparr>)"
  have field: "getField ?stp = (\<lambda>x. (0, 0, 0))"
    by simp
  have good: "tryRungeKuttaStep ?stp ?opts s" for s
    by (simp add: tryRungeKuttaStep_def stages_zero_field [OF field])
  have run: "propagateSteps ?stp ?opts ?s0 [Some 300, Some 700] = Inr ?s2"
    by (simp add: step_accept [OF good])
  have len: "pathAccumulated ?s2 = 1000"
    by (simp add: advance_def stages_zero_field [OF field])
  have unit: "vnorm (dir ?s0) = 1"
    by (simp add: vnorm_def)
  have mom: "0 < p ?s0"
    by simp
  from zero_field_straight_line [OF field unit mom run] len
  have "pos ?s2 = (1000, 0, 0) \<and> vscale (p ?s2) (dir ?s2) = (1, 0, 0)"
    by simp
  with run len show ?thesis
    by blast
qed

end
